theory Spec2Isabelle
  imports Main "HOL-Library.Sublist"
begin

section \<open>The generated document\<close>

text \<open>
  \<^verbatim>\<open>gen_drawio.py\<close> binds \<open>xml\<close> to one triple-quoted literal, writes it to a fixed
  path and prints a confirmation. The literal is an f-string without replacement fields and
  without escape sequences (\<open>xml_is_plain_text\<close> below), so its value is its text. It is
  kept here line by line, each line with the newline that ends it.
\<close>

definition xml :: string where
  \<open>xml = concat [
    ''<mxfile host="app.diagrams.net" modified="2026-02-22T00:00:00.000Z" agent="antigravity" version="21.0.0" type="device">\<newline>'',
    ''  <diagram id="diagram_1" name="Architecture">\<newline>'',
    ''    <mxGraphModel dx="1200" dy="800" grid="1" gridSize="10" guides="1" tooltips="1" connect="1" arrows="1" fold="1" page="1" pageScale="1" pageWidth="1169" pageHeight="827" background="#ffffff" math="0" shadow="0">\<newline>'',
    ''      <root>\<newline>'',
    ''        <mxCell id="0" />\<newline>'',
    ''        <mxCell id="1" parent="0" />\<newline>'',
    ''        \<newline>'',
    ''        <!-- App Pods -->\<newline>'',
    ''        <mxCell id="app1" value="App Pod 1" style="rounded=1;whiteSpace=wrap;html=1;" vertex="1" parent="1">\<newline>'',
    ''          <mxGeometry x="40" y="200" width="100" height="40" as="geometry" />\<newline>'',
    ''        </mxCell>\<newline>'',
    ''        <mxCell id="app2" value="App Pod 2" style="rounded=1;whiteSpace=wrap;html=1;" vertex="1" parent="1">\<newline>'',
    ''          <mxGeometry x="40" y="260" width="100" height="40" as="geometry" />\<newline>'',
    ''        </mxCell>\<newline>'',
    ''        <mxCell id="appN" value="App Pod N" style="rounded=1;whiteSpace=wrap;html=1;dashed=1;" vertex="1" parent="1">\<newline>'',
    ''          <mxGeometry x="40" y="320" width="100" height="40" as="geometry" />\<newline>'',
    ''        </mxCell>\<newline>'',
    ''        <mxCell id="admin" value="Admin" style="shape=actor;whiteSpace=wrap;html=1;" vertex="1" parent="1">\<newline>'',
    ''          <mxGeometry x="60" y="450" width="40" height="50" as="geometry" />\<newline>'',
    ''        </mxCell>\<newline>'',
    ''\<newline>'',
    ''        <!-- DBBouncer Container -->\<newline>'',
    ''        <mxCell id="bouncer" value="DBBouncer" style="swimlane;whiteSpace=wrap;html=1;startSize=30;" vertex="1" parent="1">\<newline>'',
    ''          <mxGeometry x="240" y="100" width="540" height="440" as="geometry" />\<newline>'',
    ''        </mxCell>\<newline>'',
    ''        \<newline>'',
    ''        <!-- DBBouncer Internals -->\<newline>'',
    ''        <mxCell id="proxy_pg" value="Proxy Server&#10;(PostgreSQL :6432)" style="rounded=1;whiteSpace=wrap;html=1;fillColor=#dae8fc;strokeColor=#6c8ebf;" vertex="1" parent="bouncer">\<newline>'',
    ''          <mxGeometry x="40" y="80" width="120" height="60" as="geometry" />\<newline>'',
    ''        </mxCell>\<newline>'',
    ''        <mxCell id="proxy_my" value="Proxy Server&#10;(MySQL :3307)" style="rounded=1;whiteSpace=wrap;html=1;fillColor=#dae8fc;strokeColor=#6c8ebf;" vertex="1" parent="bouncer">\<newline>'',
    ''          <mxGeometry x="40" y="160" width="120" height="60" as="geometry" />\<newline>'',
    ''        </mxCell>\<newline>'',
    ''        \<newline>'',
    ''        <mxCell id="api_server" value="REST API&#10;(:8080)" style="rounded=1;whiteSpace=wrap;html=1;fillColor=#fff2cc;strokeColor=#d6b656;" vertex="1" parent="bouncer">\<newline>'',
    ''          <mxGeometry x="40" y="280" width="120" height="60" as="geometry" />\<newline>'',
    ''        </mxCell>\<newline>'',
    ''        \<newline>'',
    ''        <mxCell id="router" value="Router" style="rounded=1;whiteSpace=wrap;html=1;fillColor=#d5e8d4;strokeColor=#82b366;" vertex="1" parent="bouncer">\<newline>'',
    ''          <mxGeometry x="220" y="120" width="90" height="60" as="geometry" />\<newline>'',
    ''        </mxCell>\<newline>'',
    ''        \<newline>'',
    ''        <mxCell id="pool" value="Pool Manager" style="rounded=1;whiteSpace=wrap;html=1;fillColor=#e1d5e7;strokeColor=#9673a6;" vertex="1" parent="bouncer">\<newline>'',
    ''          <mxGeometry x="380" y="120" width="120" height="80" as="geometry" />\<newline>'',
    ''        </mxCell>\<newline>'',
    ''\<newline>'',
    ''        <mxCell id="health" value="Health Checker" style="rounded=1;whiteSpace=wrap;html=1;fillColor=#f8cecc;strokeColor=#b85450;" vertex="1" parent="bouncer">\<newline>'',
    ''          <mxGeometry x="220" y="280" width="100" height="60" as="geometry" />\<newline>'',
    ''        </mxCell>\<newline>'',
    ''\<newline>'',
    ''        <mxCell id="metrics" value="Metrics (Prometheus)" style="rounded=1;whiteSpace=wrap;html=1;fillColor=#eeeeee;strokeColor=#36393d;" vertex="1" parent="bouncer">\<newline>'',
    ''          <mxGeometry x="380" y="280" width="120" height="60" as="geometry" />\<newline>'',
    ''        </mxCell>\<newline>'',
    ''\<newline>'',
    ''        <mxCell id="config" value="Config Watcher" style="shape=document;whiteSpace=wrap;html=1;boundedLbl=1;fillColor=#ffffff;" vertex="1" parent="bouncer">\<newline>'',
    ''          <mxGeometry x="220" y="360" width="100" height="60" as="geometry" />\<newline>'',
    ''        </mxCell>\<newline>'',
    ''\<newline>'',
    ''        <!-- Tenant DBs -->\<newline>'',
    ''        <mxCell id="t1" value="Tenant 1 DB&#10;(PostgreSQL)" style="shape=cylinder3;whiteSpace=wrap;html=1;boundedLbl=1;backgroundOutline=1;size=15;fillColor=#dae8fc;strokeColor=#6c8ebf;" vertex="1" parent="1">\<newline>'',
    ''          <mxGeometry x="900" y="150" width="100" height="80" as="geometry" />\<newline>'',
    ''        </mxCell>\<newline>'',
    ''        <mxCell id="t2" value="Tenant 2 DB&#10;(MySQL)" style="shape=cylinder3;whiteSpace=wrap;html=1;boundedLbl=1;backgroundOutline=1;size=15;fillColor=#ffe6cc;strokeColor=#d79b00;" vertex="1" parent="1">\<newline>'',
    ''          <mxGeometry x="900" y="270" width="100" height="80" as="geometry" />\<newline>'',
    ''        </mxCell>\<newline>'',
    ''        <mxCell id="tN" value="Tenant N DB" style="shape=cylinder3;whiteSpace=wrap;html=1;boundedLbl=1;backgroundOutline=1;size=15;dashed=1;" vertex="1" parent="1">\<newline>'',
    ''          <mxGeometry x="900" y="390" width="100" height="80" as="geometry" />\<newline>'',
    ''        </mxCell>\<newline>'',
    ''\<newline>'',
    ''        <!-- Edges -->\<newline>'',
    ''        <mxCell id="e1" edge="1" parent="1" source="app1" target="proxy_pg" style="edgeStyle=orthogonalEdgeStyle;rounded=0;orthogonalLoop=1;jettySize=auto;html=1;">\<newline>'',
    ''          <mxGeometry relative="1" as="geometry" />\<newline>'',
    ''        </mxCell>\<newline>'',
    ''        <mxCell id="e2" edge="1" parent="1" source="app2" target="proxy_pg" style="edgeStyle=orthogonalEdgeStyle;rounded=0;orthogonalLoop=1;jettySize=auto;html=1;">\<newline>'',
    ''          <mxGeometry relative="1" as="geometry" />\<newline>'',
    ''        </mxCell>\<newline>'',
    ''        <mxCell id="e3" edge="1" parent="1" source="appN" target="proxy_my" style="edgeStyle=orthogonalEdgeStyle;rounded=0;orthogonalLoop=1;jettySize=auto;html=1;">\<newline>'',
    ''          <mxGeometry relative="1" as="geometry" />\<newline>'',
    ''        </mxCell>\<newline>'',
    ''        <mxCell id="e4" edge="1" parent="1" source="admin" target="api_server" style="edgeStyle=orthogonalEdgeStyle;rounded=0;orthogonalLoop=1;jettySize=auto;html=1;dashed=1;">\<newline>'',
    ''          <mxGeometry relative="1" as="geometry" />\<newline>'',
    ''        </mxCell>\<newline>'',
    ''\<newline>'',
    ''        <!-- Internal Edges (using source/target mapped to parent=1 relative positions or just direct references) -->\<newline>'',
    ''        <mxCell id="e_px_rt1" edge="1" parent="1" source="proxy_pg" target="router" style="edgeStyle=orthogonalEdgeStyle;html=1;">\<newline>'',
    ''          <mxGeometry relative="1" as="geometry" />\<newline>'',
    ''        </mxCell>\<newline>'',
    ''        <mxCell id="e_px_rt2" edge="1" parent="1" source="proxy_my" target="router" style="edgeStyle=orthogonalEdgeStyle;html=1;">\<newline>'',
    ''          <mxGeometry relative="1" as="geometry" />\<newline>'',
    ''        </mxCell>\<newline>'',
    ''        \<newline>'',
    ''        <mxCell id="e_rt_pool" edge="1" parent="1" source="router" target="pool" style="edgeStyle=orthogonalEdgeStyle;html=1;">\<newline>'',
    ''          <mxGeometry relative="1" as="geometry" />\<newline>'',
    ''        </mxCell>\<newline>'',
    ''        \<newline>'',
    ''        <mxCell id="e_pool_t1" edge="1" parent="1" source="pool" target="t1" style="edgeStyle=orthogonalEdgeStyle;html=1;">\<newline>'',
    ''          <mxGeometry relative="1" as="geometry" />\<newline>'',
    ''        </mxCell>\<newline>'',
    ''        <mxCell id="e_pool_t2" edge="1" parent="1" source="pool" target="t2" style="edgeStyle=orthogonalEdgeStyle;html=1;">\<newline>'',
    ''          <mxGeometry relative="1" as="geometry" />\<newline>'',
    ''        </mxCell>\<newline>'',
    ''        <mxCell id="e_pool_tN" edge="1" parent="1" source="pool" target="tN" style="edgeStyle=orthogonalEdgeStyle;html=1;dashed=1;">\<newline>'',
    ''          <mxGeometry relative="1" as="geometry" />\<newline>'',
    ''        </mxCell>\<newline>'',
    ''\<newline>'',
    ''        <!-- Management Edges -->\<newline>'',
    ''        <mxCell id="e_api_rt" edge="1" parent="1" source="api_server" target="router" style="edgeStyle=orthogonalEdgeStyle;html=1;dashed=1;startArrow=classic;endArrow=classic;">\<newline>'',
    ''          <mxGeometry relative="1" as="geometry" />\<newline>'',
    ''        </mxCell>\<newline>'',
    ''        <mxCell id="e_api_pool" edge="1" parent="1" source="api_server" target="pool" style="edgeStyle=orthogonalEdgeStyle;html=1;dashed=1;startArrow=classic;endArrow=classic;">\<newline>'',
    ''          <mxGeometry relative="1" as="geometry">\<newline>'',
    ''             <Array as="points">\<newline>'',
    ''              <mxPoint x="490" y="310" />\<newline>'',
    ''            </Array>\<newline>'',
    ''          </mxGeometry>\<newline>'',
    ''        </mxCell>\<newline>'',
    ''        <mxCell id="e_hlth_pool" edge="1" parent="1" source="health" target="pool" style="edgeStyle=orthogonalEdgeStyle;html=1;dashed=1;startArrow=classic;endArrow=none;">\<newline>'',
    ''          <mxGeometry relative="1" as="geometry" />\<newline>'',
    ''        </mxCell>\<newline>'',
    ''        \<newline>'',
    ''        <mxCell id="e_hlth_t1" edge="1" parent="1" source="health" target="t1" style="edgeStyle=orthogonalEdgeStyle;html=1;dashed=1;strokeColor=#b85450;">\<newline>'',
    ''          <mxGeometry relative="1" as="geometry" />\<newline>'',
    ''        </mxCell>\<newline>'',
    ''        <mxCell id="e_hlth_t2" edge="1" parent="1" source="health" target="t2" style="edgeStyle=orthogonalEdgeStyle;html=1;dashed=1;strokeColor=#b85450;">\<newline>'',
    ''          <mxGeometry relative="1" as="geometry" />\<newline>'',
    ''        </mxCell>\<newline>'',
    ''\<newline>'',
    ''        <mxCell id="e_pool_met" edge="1" parent="1" source="pool" target="metrics" style="edgeStyle=orthogonalEdgeStyle;html=1;dashed=1;">\<newline>'',
    ''          <mxGeometry relative="1" as="geometry" />\<newline>'',
    ''        </mxCell>\<newline>'',
    ''        \<newline>'',
    ''        <mxCell id="e_cfg_rt" edge="1" parent="1" source="config" target="router" style="edgeStyle=orthogonalEdgeStyle;html=1;dashed=1;">\<newline>'',
    ''          <mxGeometry relative="1" as="geometry" />\<newline>'',
    ''        </mxCell>\<newline>'',
    ''        <mxCell id="e_cfg_pool" edge="1" parent="1" source="config" target="pool" style="edgeStyle=orthogonalEdgeStyle;html=1;dashed=1;">\<newline>'',
    ''          <mxGeometry relative="1" as="geometry" />\<newline>'',
    ''        </mxCell>\<newline>'',
    ''      </root>\<newline>'',
    ''    </mxGraphModel>\<newline>'',
    ''  </diagram>\<newline>'',
    ''</mxfile>\<newline>''
  ]\<close>

text \<open>
  A character of the literal is plain when it is ASCII and is neither a brace, which would
  open or close a replacement field of the f-string, nor a backslash, which would start an
  escape sequence.
\<close>

definition plain_char :: "char \<Rightarrow> bool" where
  "plain_char c \<longleftrightarrow> c \<noteq> CHR ''{'' \<and> c \<noteq> CHR ''}'' \<and> c \<noteq> CHR 0x5C \<and> \<not> digit7 c"

section \<open>Reading a diagram document\<close>

text \<open>
  The repository has no reader of its own. The cells of the document are obtained with a
  scanner for the part of XML that the document uses: start-tags, end-tags and
  empty-element tags whose attributes are quoted, comments, and character data, which is
  skipped. The scanner consumes one character at a time; \<open>Bad\<close> absorbs everything
  after a malformed construct.
\<close>

type_synonym attrs = "(string \<times> string) list"

datatype tag = STag string attrs | EmptyTag string attrs | ETag string

datatype lstate =
    Content
  | Lt
  | Bang
  | BangDash
  | Comment
  | CommentDash
  | CommentDashDash
  | SName string
  | EName string
  | InTag string attrs
  | Slash string attrs
  | AName string attrs string
  | AEq string attrs string
  | AVal string attrs string char string
  | Bad

definition is_space :: "char \<Rightarrow> bool" where
  "is_space c \<longleftrightarrow> c = CHR '' '' \<or> c = CHR ''\<newline>'' \<or> c = CHR 0x09 \<or> c = CHR 0x0D"

fun scan :: "char \<Rightarrow> lstate \<times> tag list \<Rightarrow> lstate \<times> tag list" where
  "scan c (Content, ts) = (if c = CHR ''<'' then (Lt, ts) else (Content, ts))"
| "scan c (Lt, ts) =
     (if c = CHR ''!'' then (Bang, ts)
      else if c = CHR ''/'' then (EName [], ts)
      else if is_space c \<or> c = CHR ''>'' \<or> c = CHR ''<'' then (Bad, ts)
      else (SName [c], ts))"
| "scan c (Bang, ts) = (if c = CHR ''-'' then (BangDash, ts) else (Bad, ts))"
| "scan c (BangDash, ts) = (if c = CHR ''-'' then (Comment, ts) else (Bad, ts))"
| "scan c (Comment, ts) = (if c = CHR ''-'' then (CommentDash, ts) else (Comment, ts))"
| "scan c (CommentDash, ts) = (if c = CHR ''-'' then (CommentDashDash, ts) else (Comment, ts))"
| "scan c (CommentDashDash, ts) = (if c = CHR ''>'' then (Content, ts) else (Bad, ts))"
| "scan c (SName n, ts) =
     (if is_space c then (InTag n [], ts)
      else if c = CHR ''>'' then (Content, STag (rev n) [] # ts)
      else if c = CHR ''/'' then (Slash n [], ts)
      else if c = CHR ''<'' then (Bad, ts)
      else (SName (c # n), ts))"
| "scan c (EName n, ts) =
     (if c = CHR ''>'' then (Content, ETag (rev n) # ts)
      else if is_space c \<or> c = CHR ''<'' \<or> c = CHR ''/'' then (Bad, ts)
      else (EName (c # n), ts))"
| "scan c (InTag n as, ts) =
     (if is_space c then (InTag n as, ts)
      else if c = CHR ''>'' then (Content, STag (rev n) (rev as) # ts)
      else if c = CHR ''/'' then (Slash n as, ts)
      else if c = CHR ''<'' \<or> c = CHR ''='' then (Bad, ts)
      else (AName n as [c], ts))"
| "scan c (Slash n as, ts) =
     (if c = CHR ''>'' then (Content, EmptyTag (rev n) (rev as) # ts) else (Bad, ts))"
| "scan c (AName n as k, ts) =
     (if c = CHR ''='' then (AEq n as k, ts)
      else if is_space c \<or> c = CHR ''<'' \<or> c = CHR ''>'' \<or> c = CHR ''/'' then (Bad, ts)
      else (AName n as (c # k), ts))"
| "scan c (AEq n as k, ts) =
     (if c = CHR 0x22 \<or> c = CHR 0x27 then (AVal n as k c [], ts) else (Bad, ts))"
| "scan c (AVal n as k q v, ts) =
     (if c = q then (InTag n ((rev k, rev v) # as), ts)
      else if c = CHR ''<'' then (Bad, ts)
      else (AVal n as k q (c # v), ts))"
| "scan c (Bad, ts) = (Bad, ts)"

definition read_tags :: "string \<Rightarrow> tag list option" where
  "read_tags doc =
     (case fold scan doc (Content, []) of
        (Content, ts) \<Rightarrow> Some (rev ts)
      | _ \<Rightarrow> None)"

text \<open>
  A cell is an \<open>mxCell\<close> element that is a child of the \<open>root\<close> element. Its
  attributes \<open>id\<close>, \<open>parent\<close>, \<open>source\<close> and \<open>target\<close> are kept as they are written;
  it is a node when \<open>vertex="1"\<close> and an edge when \<open>edge="1"\<close>. \<open>collect\<close> checks on
  the way that the tags are properly nested.
\<close>

record cell =
  ident :: "string option"
  parent :: "string option"
  vertex :: bool
  edge :: bool
  source :: "string option"
  target :: "string option"

definition cell_of :: "attrs \<Rightarrow> cell" where
  "cell_of as =
     \<lparr>ident = map_of as ''id'',
      parent = map_of as ''parent'',
      vertex = (map_of as ''vertex'' = Some ''1''),
      edge = (map_of as ''edge'' = Some ''1''),
      source = map_of as ''source'',
      target = map_of as ''target''\<rparr>"

definition is_cell :: "string list \<Rightarrow> string \<Rightarrow> bool" where
  "is_cell stk n \<longleftrightarrow> n = ''mxCell'' \<and> (case stk of [] \<Rightarrow> False | p # _ \<Rightarrow> p = ''root'')"

fun collect :: "string list \<Rightarrow> tag list \<Rightarrow> cell list option" where
  "collect stk [] = (if stk = [] then Some [] else None)"
| "collect stk (STag n as # ts) =
     (if is_cell stk n then map_option ((#) (cell_of as)) (collect (n # stk) ts)
      else collect (n # stk) ts)"
| "collect stk (EmptyTag n as # ts) =
     (if is_cell stk n then map_option ((#) (cell_of as)) (collect stk ts)
      else collect stk ts)"
| "collect stk (ETag n # ts) =
     (case stk of
        [] \<Rightarrow> None
      | m # stk' \<Rightarrow> if m = n then collect stk' ts else None)"

definition read_document :: "string \<Rightarrow> cell list option" where
  "read_document doc =
     (case read_tags doc of
        None \<Rightarrow> None
      | Some ts \<Rightarrow> collect [] ts)"

definition nodes :: "cell list \<Rightarrow> cell list" where
  "nodes cs = filter vertex cs"

definition edges :: "cell list \<Rightarrow> cell list" where
  "edges cs = filter edge cs"

definition node_ids :: "cell list \<Rightarrow> string option list" where
  "node_ids cs = map ident (nodes cs)"

definition canvas :: string where
  "canvas = ''1''"

text \<open>
  Scanning a text given as a list of lines can be done line by line, carrying only the
  scanner state from one line to the next; \<open>lex_lines\<close> does so and is used to evaluate
  the reader on the document.
\<close>

fun prepend :: "tag list \<Rightarrow> lstate \<times> tag list \<Rightarrow> lstate \<times> tag list" where
  "prepend new (st, rest) = (st, new @ rest)"

fun lex_lines :: "lstate \<times> tag list \<Rightarrow> string list \<Rightarrow> lstate \<times> tag list" where
  "lex_lines (st, new) [] = (st, rev new)"
| "lex_lines (st, new) (l # ls) = prepend (rev new) (lex_lines (fold scan l (st, [])) ls)"

section \<open>The file system and the program\<close>

text \<open>
  After the literal the program consists of these statements:
  \<^verbatim>\<open>
  os.makedirs("/Users/jeelk/Documents/GitHub/JeelKantaria/db-bouncer/docs", exist_ok=True)
  with open("/Users/jeelk/Documents/GitHub/JeelKantaria/db-bouncer/docs/architecture.drawio", "w") as f:
      f.write(xml)

  print("Created /Users/jeelk/Documents/GitHub/JeelKantaria/db-bouncer/docs/architecture.drawio")
  \<close>
  They act on the world outside the program, which is passed explicitly. A \<open>world\<close> holds
  the command line and the environment (the program reads neither), the file system, the
  open file handles with the text buffered in them, and the standard output. The file system
  is an association list from absolute paths, given by their components, to entries; the
  first pair for a path is the current one and the root is always a directory. \<open>readonly\<close>
  lists the entries that may not be written (for a directory: in which nothing may be
  created) and \<open>space\<close> is the number of characters the device can still take. The
  document is plain ASCII, so characters and bytes coincide.

  An exception is a value of \<open>error\<close>; a call returns the error it raised, if any, together
  with the world it left behind.
\<close>

type_synonym path = "string list"

datatype entry = Dir | File string

datatype error =
    FileExistsError
  | FileNotFoundError
  | NotADirectoryError
  | IsADirectoryError
  | PermissionError
  | NoSpaceError
  | ValueError

record world =
  argv :: "string list"
  environ :: "(string \<times> string) list"
  entries :: "(path \<times> entry) list"
  readonly :: "path list"
  space :: nat
  handles :: "path \<rightharpoonup> string"
  stdout :: string

text \<open>
  \<open>lookup\<close> is \<open>stat\<close>. In a well-formed file system every entry lies in a directory and
  every path listed as read-only exists.
\<close>

definition lookup :: "world \<Rightarrow> path \<Rightarrow> entry option" where
  "lookup w p = (if p = [] then Some Dir else map_of (entries w) p)"

definition wf_fs :: "world \<Rightarrow> bool" where
  "wf_fs w \<longleftrightarrow>
     list_all (\<lambda>(p, e). p = [] \<or> lookup w (butlast p) = Some Dir) (entries w) \<and>
     list_all (\<lambda>p. lookup w p \<noteq> None) (readonly w)"

text \<open>
  \<open>os.makedirs(name, exist_ok)\<close> first creates the parent when it does not exist,
  swallowing \<open>FileExistsError\<close> from that recursive call, then calls \<open>mkdir\<close> on
  \<open>name\<close> itself and swallows its error only when \<open>exist_ok\<close> is set and \<open>name\<close> is
  a directory afterwards.
\<close>

fun split_on :: "char \<Rightarrow> string \<Rightarrow> string \<Rightarrow> string list" where
  "split_on d acc [] = [rev acc]"
| "split_on d acc (c # cs) =
     (if c = d then rev acc # split_on d [] cs else split_on d (c # acc) cs)"

definition components :: "string \<Rightarrow> path" where
  "components s = filter (\<lambda>n. n \<noteq> []) (split_on CHR ''/'' [] s)"

definition mkdir :: "path \<Rightarrow> world \<Rightarrow> error option \<times> world" where
  "mkdir p w =
     (if p = [] then (Some FileExistsError, w)
      else case lookup w (butlast p) of
        None \<Rightarrow> (Some FileNotFoundError, w)
      | Some (File _) \<Rightarrow> (Some NotADirectoryError, w)
      | Some Dir \<Rightarrow>
          if lookup w p \<noteq> None then (Some FileExistsError, w)
          else if butlast p \<in> set (readonly w) then (Some PermissionError, w)
          else (None, w\<lparr>entries := (p, Dir) # entries w\<rparr>))"

function makedirs :: "path \<Rightarrow> bool \<Rightarrow> world \<Rightarrow> error option \<times> world" where
  "makedirs name exist_ok w =
     (case (if name \<noteq> [] \<and> lookup w (butlast name) = None
            then (case makedirs (butlast name) exist_ok w of
                    (Some FileExistsError, w') \<Rightarrow> (None, w')
                  | rw \<Rightarrow> rw)
            else (None, w)) of
        (Some e, w1) \<Rightarrow> (Some e, w1)
      | (None, w1) \<Rightarrow>
          (case mkdir name w1 of
             (Some e, w2) \<Rightarrow>
               if \<not> exist_ok \<or> lookup w2 name \<noteq> Some Dir then (Some e, w2) else (None, w2)
           | (None, w2) \<Rightarrow> (None, w2)))"
  by pat_completeness auto
termination
  by (relation "measure (\<lambda>(name, _, _). length name)") auto

text \<open>
  \<open>open(p, "w")\<close> creates the file or truncates it and returns a handle; \<open>write\<close> appends
  to the handle's buffer; \<open>close\<close> flushes the buffer to the file and releases the handle,
  and fails, leaving what fitted, when the device is full. The \<open>with\<close> statement closes
  the handle on every path out of its body.
\<close>

definition py_open :: "path \<Rightarrow> world \<Rightarrow> (error + path) \<times> world" where
  "py_open p w =
     (case lookup w p of
        Some Dir \<Rightarrow> (Inl IsADirectoryError, w)
      | Some (File old) \<Rightarrow>
          if p \<in> set (readonly w) then (Inl PermissionError, w)
          else (Inr p, w\<lparr>entries := (p, File []) # entries w,
                           space := space w + length old,
                           handles := (handles w)(p \<mapsto> [])\<rparr>)
      | None \<Rightarrow>
          (case lookup w (butlast p) of
             None \<Rightarrow> (Inl FileNotFoundError, w)
           | Some (File _) \<Rightarrow> (Inl NotADirectoryError, w)
           | Some Dir \<Rightarrow>
               if butlast p \<in> set (readonly w) then (Inl PermissionError, w)
               else (Inr p, w\<lparr>entries := (p, File []) # entries w,
                                handles := (handles w)(p \<mapsto> [])\<rparr>)))"

definition py_write :: "path \<Rightarrow> string \<Rightarrow> world \<Rightarrow> error option \<times> world" where
  "py_write f s w =
     (case handles w f of
        None \<Rightarrow> (Some ValueError, w)
      | Some buf \<Rightarrow> (None, w\<lparr>handles := (handles w)(f \<mapsto> buf @ s)\<rparr>))"

definition py_close :: "path \<Rightarrow> world \<Rightarrow> error option \<times> world" where
  "py_close f w =
     (case handles w f of
        None \<Rightarrow> (None, w)
      | Some buf \<Rightarrow>
          (case lookup w f of
             Some (File cur) \<Rightarrow>
               if length buf \<le> space w
               then (None, w\<lparr>entries := (f, File (cur @ buf)) # entries w,
                               space := space w - length buf,
                               handles := (handles w)(f := None)\<rparr>)
               else (Some NoSpaceError,
                     w\<lparr>entries := (f, File (cur @ take (space w) buf)) # entries w,
                       space := 0,
                       handles := (handles w)(f := None)\<rparr>)
           | _ \<Rightarrow> (Some FileNotFoundError, w\<lparr>handles := (handles w)(f := None)\<rparr>)))"

definition py_print :: "string \<Rightarrow> world \<Rightarrow> world" where
  "py_print s w = w\<lparr>stdout := stdout w @ s @ ''\<newline>''\<rparr>"

text \<open>
  The three string literals of the program, each as it is written at its place of use, and
  the program itself. An exception that reaches the top level ends the process with exit
  status 1.
\<close>

definition makedirs_arg :: string where
  "makedirs_arg = ''/Users/jeelk/Documents/GitHub/JeelKantaria/db-bouncer/docs''"

definition open_arg :: string where
  "open_arg = ''/Users/jeelk/Documents/GitHub/JeelKantaria/db-bouncer/docs/architecture.drawio''"

definition print_arg :: string where
  "print_arg = ''Created /Users/jeelk/Documents/GitHub/JeelKantaria/db-bouncer/docs/architecture.drawio''"

definition with_open_write :: "world \<Rightarrow> error option \<times> world" where
  "with_open_write w =
     (case py_open (components open_arg) w of
        (Inl e, w1) \<Rightarrow> (Some e, w1)
      | (Inr f, w1) \<Rightarrow>
          (case py_write f xml w1 of
             (Some e, w2) \<Rightarrow> (Some e, snd (py_close f w2))
           | (None, w2) \<Rightarrow> py_close f w2))"

definition main :: "world \<Rightarrow> error option \<times> world" where
  "main w =
     (case makedirs (components makedirs_arg) True w of
        (Some e, w1) \<Rightarrow> (Some e, w1)
      | (None, w1) \<Rightarrow>
          (case with_open_write w1 of
             (Some e, w2) \<Rightarrow> (Some e, w2)
           | (None, w2) \<Rightarrow> (None, py_print print_arg w2)))"

definition exit_status :: "error option \<times> world \<Rightarrow> nat" where
  "exit_status r = (case fst r of None \<Rightarrow> 0 | Some _ \<Rightarrow> 1)"

text \<open>
  \<open>extends name w w'\<close>: \<open>w'\<close> is \<open>w\<close> with some absent prefixes of \<open>name\<close> turned into
  directories and nothing else changed. \<open>writable_target\<close> describes the file systems in
  which the run cannot fail. The worlds below are used as concrete inputs.
\<close>

definition extends :: "path \<Rightarrow> world \<Rightarrow> world \<Rightarrow> bool" where
  "extends name w w' \<longleftrightarrow>
     stdout w' = stdout w \<and> handles w' = handles w \<and> space w' = space w \<and>
     readonly w' = readonly w \<and> argv w' = argv w \<and> environ w' = environ w \<and>
     (wf_fs w \<longrightarrow> wf_fs w') \<and>
     (\<forall>q. lookup w' q = lookup w q \<or>
          (lookup w q = None \<and> lookup w' q = Some Dir \<and> prefix q name))"

declare makedirs.simps [simp del]

definition writable_target :: "world \<Rightarrow> bool" where
  "writable_target w \<longleftrightarrow>
     list_all (\<lambda>q. lookup w q = None \<or> lookup w q = Some Dir)
       (prefixes (components makedirs_arg)) \<and>
     list_all (\<lambda>q. q = [] \<or> lookup w q \<noteq> None \<or> butlast q \<notin> set (readonly w))
       (prefixes (components makedirs_arg)) \<and>
     (case lookup w (components open_arg) of
        None \<Rightarrow>
          components makedirs_arg \<notin> set (readonly w) \<and> length xml \<le> space w
      | Some Dir \<Rightarrow> False
      | Some (File old) \<Rightarrow>
          components open_arg \<notin> set (readonly w) \<and> length xml \<le> space w + length old)"

definition world_partial :: world where
  "world_partial =
     \<lparr>argv = [''gen_drawio.py''],
      environ = [(''HOME'', ''/Users/jeelk'')],
      entries = [([''Users'', ''jeelk''], Dir), ([''Users''], Dir)],
      readonly = [[''Users'']],
      space = length xml,
      handles = Map.empty,
      stdout = []\<rparr>"

definition world_existing :: world where
  "world_existing =
     \<lparr>argv = [''gen_drawio.py'', ''--out'', ''elsewhere.drawio''],
      environ = [(''OUT'', ''/tmp/elsewhere.drawio'')],
      entries =
        [([''Users'', ''jeelk'', ''Documents'', ''GitHub'', ''JeelKantaria'', ''db-bouncer'',
           ''docs'', ''architecture.drawio''], File ''stale''),
         ([''Users'', ''jeelk'', ''Documents'', ''GitHub'', ''JeelKantaria'', ''db-bouncer'',
           ''docs''], Dir),
         ([''Users'', ''jeelk'', ''Documents'', ''GitHub'', ''JeelKantaria'', ''db-bouncer''], Dir),
         ([''Users'', ''jeelk'', ''Documents'', ''GitHub'', ''JeelKantaria''], Dir),
         ([''Users'', ''jeelk'', ''Documents'', ''GitHub''], Dir),
         ([''Users'', ''jeelk'', ''Documents''], Dir),
         ([''Users'', ''jeelk''], Dir),
         ([''Users''], Dir)],
      readonly = [[''Users'']],
      space = length xml,
      handles = Map.empty,
      stdout = []\<rparr>"

definition world_blocked :: world where
  "world_blocked =
     \<lparr>argv = [''gen_drawio.py''],
      environ = [],
      entries = [([''Users''], File ''a regular file'')],
      readonly = [],
      space = length xml,
      handles = Map.empty,
      stdout = []\<rparr>"

definition world_full :: world where
  "world_full =
     world_existing
       \<lparr>entries :=
          ([''Users'', ''jeelk'', ''Documents'', ''GitHub'', ''JeelKantaria'', ''db-bouncer'',
            ''docs'', ''architecture.drawio''], File []) # entries world_existing,
        space := 0\<rparr>"

section \<open>Facts about the document and its reader\<close>

lemma list_all_concat: "list_all P (concat xss) = list_all (list_all P) xss"
  by (induction xss) simp_all

lemma xml_is_plain_text: "list_all plain_char xml"
  unfolding xml_def list_all_concat
  by code_simp

lemma scan_frame: "scan c (st, ts) = (fst (scan c (st, [])), snd (scan c (st, [])) @ ts)"
  by (cases st) simp_all

lemma fold_scan_frame:
  "fold scan cs (st, ts) = (fst (fold scan cs (st, [])), snd (fold scan cs (st, [])) @ ts)"
proof (induction cs arbitrary: st ts)
  case Nil
  show ?case by simp
next
  case (Cons c cs)
  obtain st1 n1 where s1: "scan c (st, []) = (st1, n1)"
    by (cases "scan c (st, [])")
  have s2: "scan c (st, ts) = (st1, n1 @ ts)"
    using scan_frame [of c st ts] s1 by simp
  have "fold scan (c # cs) (st, ts) = fold scan cs (st1, n1 @ ts)"
    using s2 by simp
  also have "\<dots> = (fst (fold scan cs (st1, [])), snd (fold scan cs (st1, [])) @ n1 @ ts)"
    using Cons.IH [of st1 "n1 @ ts"] by simp
  finally have lhs: "fold scan (c # cs) (st, ts) =
      (fst (fold scan cs (st1, [])), snd (fold scan cs (st1, [])) @ n1 @ ts)" .
  have "fold scan (c # cs) (st, []) = fold scan cs (st1, n1)"
    using s1 by simp
  also have "\<dots> = (fst (fold scan cs (st1, [])), snd (fold scan cs (st1, [])) @ n1)"
    using Cons.IH [of st1 n1] by simp
  finally show ?case using lhs by simp
qed

lemma lex_lines_fold:
  "lex_lines (st, new) ls =
     (fst (fold scan (concat ls) (st, [])), rev new @ rev (snd (fold scan (concat ls) (st, []))))"
proof (induction ls arbitrary: st new)
  case Nil
  show ?case by simp
next
  case (Cons l ls)
  obtain st1 n1 where s1: "fold scan l (st, []) = (st1, n1)"
    by (cases "fold scan l (st, [])")
  have fr: "fold scan (concat ls) (st1, n1) =
      (fst (fold scan (concat ls) (st1, [])), snd (fold scan (concat ls) (st1, [])) @ n1)"
    by (rule fold_scan_frame)
  show ?case
    using s1 fr Cons.IH [of st1 n1] by simp
qed

lemma read_tags_concat:
  "read_tags (concat ls) =
     (case lex_lines (Content, []) ls of (Content, ts) \<Rightarrow> Some ts | _ \<Rightarrow> None)"
  unfolding read_tags_def lex_lines_fold [of Content "[]" ls]
  by (cases "fold scan (concat ls) (Content, [])") (simp split: lstate.splits)

lemma read_document_xml:
  "read_document xml =
   Some [\<lparr>ident = Some ''0'', parent = None, vertex = False, edge = False, source = None, target = None\<rparr>,
        \<lparr>ident = Some ''1'', parent = Some ''0'', vertex = False, edge = False, source = None, target = None\<rparr>,
        \<lparr>ident = Some ''app1'', parent = Some ''1'', vertex = True, edge = False, source = None, target = None\<rparr>,
        \<lparr>ident = Some ''app2'', parent = Some ''1'', vertex = True, edge = False, source = None, target = None\<rparr>,
        \<lparr>ident = Some ''appN'', parent = Some ''1'', vertex = True, edge = False, source = None, target = None\<rparr>,
        \<lparr>ident = Some ''admin'', parent = Some ''1'', vertex = True, edge = False, source = None, target = None\<rparr>,
        \<lparr>ident = Some ''bouncer'', parent = Some ''1'', vertex = True, edge = False, source = None, target = None\<rparr>,
        \<lparr>ident = Some ''proxy_pg'', parent = Some ''bouncer'', vertex = True, edge = False, source = None, target = None\<rparr>,
        \<lparr>ident = Some ''proxy_my'', parent = Some ''bouncer'', vertex = True, edge = False, source = None, target = None\<rparr>,
        \<lparr>ident = Some ''api_server'', parent = Some ''bouncer'', vertex = True, edge = False, source = None, target = None\<rparr>,
        \<lparr>ident = Some ''router'', parent = Some ''bouncer'', vertex = True, edge = False, source = None, target = None\<rparr>,
        \<lparr>ident = Some ''pool'', parent = Some ''bouncer'', vertex = True, edge = False, source = None, target = None\<rparr>,
        \<lparr>ident = Some ''health'', parent = Some ''bouncer'', vertex = True, edge = False, source = None, target = None\<rparr>,
        \<lparr>ident = Some ''metrics'', parent = Some ''bouncer'', vertex = True, edge = False, source = None, target = None\<rparr>,
        \<lparr>ident = Some ''config'', parent = Some ''bouncer'', vertex = True, edge = False, source = None, target = None\<rparr>,
        \<lparr>ident = Some ''t1'', parent = Some ''1'', vertex = True, edge = False, source = None, target = None\<rparr>,
        \<lparr>ident = Some ''t2'', parent = Some ''1'', vertex = True, edge = False, source = None, target = None\<rparr>,
        \<lparr>ident = Some ''tN'', parent = Some ''1'', vertex = True, edge = False, source = None, target = None\<rparr>,
        \<lparr>ident = Some ''e1'', parent = Some ''1'', vertex = False, edge = True, source = Some ''app1'', target = Some ''proxy_pg''\<rparr>,
        \<lparr>ident = Some ''e2'', parent = Some ''1'', vertex = False, edge = True, source = Some ''app2'', target = Some ''proxy_pg''\<rparr>,
        \<lparr>ident = Some ''e3'', parent = Some ''1'', vertex = False, edge = True, source = Some ''appN'', target = Some ''proxy_my''\<rparr>,
        \<lparr>ident = Some ''e4'', parent = Some ''1'', vertex = False, edge = True, source = Some ''admin'', target = Some ''api_server''\<rparr>,
        \<lparr>ident = Some ''e_px_rt1'', parent = Some ''1'', vertex = False, edge = True, source = Some ''proxy_pg'', target = Some ''router''\<rparr>,
        \<lparr>ident = Some ''e_px_rt2'', parent = Some ''1'', vertex = False, edge = True, source = Some ''proxy_my'', target = Some ''router''\<rparr>,
        \<lparr>ident = Some ''e_rt_pool'', parent = Some ''1'', vertex = False, edge = True, source = Some ''router'', target = Some ''pool''\<rparr>,
        \<lparr>ident = Some ''e_pool_t1'', parent = Some ''1'', vertex = False, edge = True, source = Some ''pool'', target = Some ''t1''\<rparr>,
        \<lparr>ident = Some ''e_pool_t2'', parent = Some ''1'', vertex = False, edge = True, source = Some ''pool'', target = Some ''t2''\<rparr>,
        \<lparr>ident = Some ''e_pool_tN'', parent = Some ''1'', vertex = False, edge = True, source = Some ''pool'', target = Some ''tN''\<rparr>,
        \<lparr>ident = Some ''e_api_rt'', parent = Some ''1'', vertex = False, edge = True, source = Some ''api_server'', target = Some ''router''\<rparr>,
        \<lparr>ident = Some ''e_api_pool'', parent = Some ''1'', vertex = False, edge = True, source = Some ''api_server'', target = Some ''pool''\<rparr>,
        \<lparr>ident = Some ''e_hlth_pool'', parent = Some ''1'', vertex = False, edge = True, source = Some ''health'', target = Some ''pool''\<rparr>,
        \<lparr>ident = Some ''e_hlth_t1'', parent = Some ''1'', vertex = False, edge = True, source = Some ''health'', target = Some ''t1''\<rparr>,
        \<lparr>ident = Some ''e_hlth_t2'', parent = Some ''1'', vertex = False, edge = True, source = Some ''health'', target = Some ''t2''\<rparr>,
        \<lparr>ident = Some ''e_pool_met'', parent = Some ''1'', vertex = False, edge = True, source = Some ''pool'', target = Some ''metrics''\<rparr>,
        \<lparr>ident = Some ''e_cfg_rt'', parent = Some ''1'', vertex = False, edge = True, source = Some ''config'', target = Some ''router''\<rparr>,
        \<lparr>ident = Some ''e_cfg_pool'', parent = Some ''1'', vertex = False, edge = True, source = Some ''config'', target = Some ''pool''\<rparr>]"
  unfolding read_document_def xml_def read_tags_concat
  by code_simp

section \<open>Facts about the file system calls\<close>

lemma lookup_root: "lookup w [] = Some Dir"
  by (simp add: lookup_def)

lemma wf_parent_dir:
  assumes "wf_fs w" and "p \<noteq> []" and "lookup w p = Some e"
  shows "lookup w (butlast p) = Some Dir"
proof -
  from assms(2,3) have "map_of (entries w) p = Some e"
    by (simp add: lookup_def)
  then have "(p, e) \<in> set (entries w)"
    by (rule map_of_SomeD)
  with assms(1) have "p = [] \<or> lookup w (butlast p) = Some Dir"
    by (auto simp: wf_fs_def list_all_iff)
  with assms(2) show ?thesis by simp
qed


lemma mkdir_fields:
  "mkdir p w = (r, w') \<Longrightarrow>
     stdout w' = stdout w \<and> handles w' = handles w \<and> space w' = space w \<and>
     readonly w' = readonly w \<and> argv w' = argv w \<and> environ w' = environ w"
  by (auto simp: mkdir_def split: if_splits option.splits entry.splits)

lemma mkdir_lookup:
  "mkdir p w = (r, w') \<Longrightarrow>
     lookup w' q = (if r = None \<and> q = p then Some Dir else lookup w q)"
  by (auto simp: mkdir_def lookup_def split: if_splits option.splits entry.splits)

lemma mkdir_ok:
  "mkdir p w = (None, w') \<Longrightarrow>
     p \<noteq> [] \<and> lookup w p = None \<and> lookup w (butlast p) = Some Dir \<and>
     entries w' = (p, Dir) # entries w"
  by (auto simp: mkdir_def split: if_splits option.splits entry.splits)

lemma mkdir_wf:
  assumes "wf_fs w" and "mkdir p w = (r, w')"
  shows "wf_fs w'"
proof (cases r)
  case (Some e)
  with assms(2) have "w' = w"
    by (auto simp: mkdir_def split: if_splits option.splits entry.splits)
  with assms(1) show ?thesis by simp
next
  case None
  with assms(2) have ok: "p \<noteq> []" "lookup w p = None" "lookup w (butlast p) = Some Dir"
    "entries w' = (p, Dir) # entries w"
    using mkdir_ok by blast+
  have lk: "\<And>q. lookup w' q = (if q = p then Some Dir else lookup w q)"
    using mkdir_lookup [OF assms(2)] None by simp
  have "butlast p \<noteq> p"
    using ok(1) by (metis length_butlast diff_less length_greater_0_conv less_irrefl zero_less_one)
  then have a: "lookup w' (butlast p) = Some Dir"
    using lk ok(3) by simp
  have b: "\<And>q e. (q, e) \<in> set (entries w) \<Longrightarrow> q = [] \<or> lookup w' (butlast q) = Some Dir"
  proof -
    fix q e assume "(q, e) \<in> set (entries w)"
    with assms(1) have "q = [] \<or> lookup w (butlast q) = Some Dir"
      by (auto simp: wf_fs_def list_all_iff)
    then show "q = [] \<or> lookup w' (butlast q) = Some Dir"
      using lk by auto
  qed
  have c: "\<And>q. q \<in> set (readonly w') \<Longrightarrow> lookup w' q \<noteq> None"
  proof -
    fix q assume "q \<in> set (readonly w')"
    then have "q \<in> set (readonly w)"
      using mkdir_fields [OF assms(2)] by simp
    with assms(1) have "lookup w q \<noteq> None"
      by (auto simp: wf_fs_def list_all_iff)
    then show "lookup w' q \<noteq> None"
      using lk by auto
  qed
  show ?thesis
    unfolding wf_fs_def list_all_iff ok(4)
    using a b c by auto
qed

lemma wf_readonly_exists:
  "wf_fs w \<Longrightarrow> p \<in> set (readonly w) \<Longrightarrow> lookup w p \<noteq> None"
  by (auto simp: wf_fs_def list_all_iff)

lemma extends_refl: "extends name w w"
  by (simp add: extends_def)

lemma extends_lookup:
  assumes "extends name w w'"
  shows "lookup w' q = lookup w q \<or>
         (lookup w q = None \<and> lookup w' q = Some Dir \<and> prefix q name)"
proof -
  from assms have "\<forall>q. lookup w' q = lookup w q \<or>
      (lookup w q = None \<and> lookup w' q = Some Dir \<and> prefix q name)"
    by (simp add: extends_def)
  then show ?thesis by (rule spec)
qed

lemma extends_trans:
  assumes "extends n1 w w1" and "extends n2 w1 w2" and "prefix n1 n2"
  shows "extends n2 w w2"
proof -
  have "lookup w2 q = lookup w q \<or> (lookup w q = None \<and> lookup w2 q = Some Dir \<and> prefix q n2)" for q
  proof -
    from assms(1) have a: "lookup w1 q = lookup w q \<or>
        (lookup w q = None \<and> lookup w1 q = Some Dir \<and> prefix q n1)"
      by (simp add: extends_def)
    from assms(2) have b: "lookup w2 q = lookup w1 q \<or>
        (lookup w1 q = None \<and> lookup w2 q = Some Dir \<and> prefix q n2)"
      by (simp add: extends_def)
    from a b assms(3) show ?thesis
      by (auto dest: prefix_order.trans)
  qed
  moreover from assms(1,2) have "stdout w2 = stdout w" "handles w2 = handles w"
    "space w2 = space w" "readonly w2 = readonly w" "argv w2 = argv w" "environ w2 = environ w"
    "wf_fs w \<longrightarrow> wf_fs w2"
    by (simp_all add: extends_def)
  ultimately show ?thesis
    by (simp add: extends_def)
qed

lemma mkdir_extends:
  assumes "mkdir p w = (r, w')"
  shows "extends p w w'"
proof -
  have "lookup w' q = lookup w q \<or> (lookup w q = None \<and> lookup w' q = Some Dir \<and> prefix q p)" for q
  proof (cases "r = None \<and> q = p")
    case True
    then have "lookup w p = None" using mkdir_ok assms by blast
    with True mkdir_lookup [OF assms, of q] show ?thesis by simp
  next
    case False
    with mkdir_lookup [OF assms, of q] show ?thesis by auto
  qed
  then show ?thesis
    using mkdir_fields [OF assms] mkdir_wf [OF _ assms]
    by (auto simp: extends_def)
qed

lemma makedirs_extends:
  "makedirs name x w = (r, w') \<Longrightarrow> extends name w w'"
proof (induction name x w arbitrary: r w' rule: makedirs.induct)
  case (1 name x w)
  define c where "c \<longleftrightarrow> name \<noteq> [] \<and> lookup w (butlast name) = None"
  obtain r0 w0 where rec: "makedirs (butlast name) x w = (r0, w0)"
    by (cases "makedirs (butlast name) x w")
  define r1 where "r1 = (if c then (if r0 = Some FileExistsError then None else r0) else None)"
  define w1 where "w1 = (if c then w0 else w)"
  obtain r2 w2 where mk: "mkdir name w1 = (r2, w2)"
    by (cases "mkdir name w1")
  have pre: "(if name \<noteq> [] \<and> lookup w (butlast name) = None
              then (case makedirs (butlast name) x w of
                      (Some FileExistsError, w') \<Rightarrow> (None, w')
                    | rw \<Rightarrow> rw)
              else (None, w)) = (r1, w1)"
    by (auto simp: r1_def w1_def c_def rec split: option.splits error.splits)
  have e1: "extends name w w1"
  proof (cases c)
    case True
    then have "extends (butlast name) w w0"
      using "1.IH" rec by (simp add: c_def)
    moreover have "prefix (butlast name) name"
      by (simp add: prefixeq_butlast)
    ultimately have "extends name w w0"
      using extends_trans [of "butlast name" w w0 name w0] extends_refl by blast
    with True show ?thesis by (simp add: w1_def)
  next
    case False
    then show ?thesis by (simp add: w1_def extends_refl)
  qed
  have e2: "extends name w w2"
    using extends_trans [OF e1 mkdir_extends [OF mk]] by simp
  have "w' = w1 \<or> w' = w2"
    using "1.prems" unfolding makedirs.simps [of name x w] pre
    by (auto simp: mk split: option.splits if_splits)
  with e1 e2 show ?case by auto
qed

lemma makedirs_isdir:
  assumes "makedirs name True w = (None, w')"
  shows "lookup w' name = Some Dir"
proof -
  obtain r1 w1 where pre: "(if name \<noteq> [] \<and> lookup w (butlast name) = None
              then (case makedirs (butlast name) True w of
                      (Some FileExistsError, w') \<Rightarrow> (None, w')
                    | rw \<Rightarrow> rw)
              else (None, w)) = (r1, w1)"
    by force
  obtain r2 w2 where mk: "mkdir name w1 = (r2, w2)"
    by (cases "mkdir name w1")
  from assms have "r1 = None \<and> w' = w2 \<and> (r2 = None \<or> lookup w2 name = Some Dir)"
    unfolding makedirs.simps [of name True w] pre
    by (auto simp: mk split: option.splits if_splits)
  with mkdir_lookup [OF mk, of name] show ?thesis by auto
qed

lemma makedirs_succeeds:
  "wf_fs w \<Longrightarrow>
   (\<forall>q. prefix q name \<longrightarrow> lookup w q = None \<or> lookup w q = Some Dir) \<Longrightarrow>
   (\<forall>q. prefix q name \<and> q \<noteq> [] \<and> lookup w q = None \<longrightarrow> butlast q \<notin> set (readonly w)) \<Longrightarrow>
   fst (makedirs name True w) = None"
proof (induction name "True" w rule: makedirs.induct)
  case (1 name w)
  define c where "c \<longleftrightarrow> name \<noteq> [] \<and> lookup w (butlast name) = None"
  obtain r0 w0 where rec: "makedirs (butlast name) True w = (r0, w0)"
    by (cases "makedirs (butlast name) True w")
  define w1 where "w1 = (if c then w0 else w)"
  have r0: "c \<Longrightarrow> r0 = None"
  proof -
    assume c
    have "\<forall>q. prefix q (butlast name) \<longrightarrow> lookup w q = None \<or> lookup w q = Some Dir"
      using "1.prems"(2) by (meson prefix_order.trans prefixeq_butlast)
    moreover have "\<forall>q. prefix q (butlast name) \<and> q \<noteq> [] \<and> lookup w q = None \<longrightarrow>
        butlast q \<notin> set (readonly w)"
      using "1.prems"(3) by (meson prefix_order.trans prefixeq_butlast)
    ultimately have "fst (makedirs (butlast name) True w) = None"
      using "1.hyps" \<open>c\<close> "1.prems"(1) by (simp add: c_def)
    with rec show "r0 = None" by simp
  qed
  have pre: "(if name \<noteq> [] \<and> lookup w (butlast name) = None
              then (case makedirs (butlast name) True w of
                      (Some FileExistsError, w') \<Rightarrow> (None, w')
                    | rw \<Rightarrow> rw)
              else (None, w)) = (None, w1)"
    using r0 by (auto simp: w1_def c_def rec)
  have e1: "extends (butlast name) w w1"
    using makedirs_extends [OF rec] by (simp add: w1_def extends_refl)
  have wf1: "wf_fs w1" and ro1: "readonly w1 = readonly w"
    using e1 "1.prems"(1) by (simp_all add: extends_def)
  have parent: "name \<noteq> [] \<Longrightarrow> lookup w1 (butlast name) = Some Dir"
  proof (cases c)
    case True
    with r0 rec have "makedirs (butlast name) True w = (None, w0)" by simp
    from makedirs_isdir [OF this] True show ?thesis by (simp add: w1_def)
  next
    case False
    assume "name \<noteq> []"
    with False have "lookup w (butlast name) \<noteq> None" by (simp add: c_def)
    moreover have "lookup w (butlast name) = None \<or> lookup w (butlast name) = Some Dir"
      using "1.prems"(2) by (simp add: prefixeq_butlast)
    ultimately show ?thesis using False by (auto simp: w1_def)
  qed
  have self: "lookup w1 name = None \<or> lookup w1 name = Some Dir"
  proof -
    have "lookup w name = None \<or> lookup w name = Some Dir"
      using "1.prems"(2) by simp
    moreover have "lookup w1 name = lookup w name \<or> lookup w1 name = Some Dir"
      using e1 by (auto simp: extends_def)
    ultimately show ?thesis by auto
  qed
  obtain r2 w2 where mk: "mkdir name w1 = (r2, w2)"
    by (cases "mkdir name w1")
  have "r2 = None \<or> lookup w2 name = Some Dir"
  proof (cases "name = []")
    case True
    then show ?thesis by (simp add: lookup_root)
  next
    case False
    show ?thesis
    proof (cases "lookup w1 name = None")
      case True
      have "lookup w1 name = lookup w name \<or> lookup w name = None"
        using extends_lookup [OF e1, of name] by auto
      with True have "lookup w name = None"
        by auto
      then have "butlast name \<notin> set (readonly w1)"
        using "1.prems"(3) False ro1 by simp
      with mk parent [OF False] True False have "r2 = None"
        by (auto simp: mkdir_def)
      then show ?thesis ..
    next
      case False
      with self have "lookup w1 name = Some Dir" by simp
      with mkdir_lookup [OF mk, of name] show ?thesis by auto
    qed
  qed
  then show ?case
    unfolding makedirs.simps [of name True w] pre
    by (auto simp: mk split: option.splits)
qed

lemma out_path_split:
  "components open_arg = components makedirs_arg @ [''architecture.drawio'']"
  by (simp add: components_def open_arg_def makedirs_arg_def)

lemma out_path_nonempty: "components open_arg \<noteq> []"
  by (simp add: out_path_split)

lemma out_path_parent: "butlast (components open_arg) = components makedirs_arg"
  by (simp add: out_path_split)

lemma print_arg_names_open_arg: "print_arg = ''Created '' @ open_arg"
  by (simp add: print_arg_def open_arg_def)

lemma py_open_ok:
  assumes "py_open p w = (Inr f, w1)"
  shows "f = p \<and> lookup w1 p = Some (File []) \<and> handles w1 p = Some [] \<and>
         (\<forall>q. q \<noteq> p \<longrightarrow> lookup w1 q = lookup w q) \<and>
         stdout w1 = stdout w \<and> readonly w1 = readonly w \<and> p \<noteq> [] \<and>
         (\<forall>g. g \<noteq> p \<longrightarrow> handles w1 g = handles w g) \<and>
         lookup w p \<noteq> Some Dir \<and> (lookup w p = None \<or> p \<notin> set (readonly w)) \<and>
         argv w1 = argv w \<and> environ w1 = environ w \<and>
         space w1 = space w + (case lookup w p of Some (File old) \<Rightarrow> length old | _ \<Rightarrow> 0)"
  using assms
  by (auto simp: py_open_def lookup_def split: option.splits entry.splits if_splits)

lemma py_open_fail:
  "py_open p w = (Inl e, w1) \<Longrightarrow> w1 = w"
  by (auto simp: py_open_def split: option.splits entry.splits if_splits)

lemma py_open_succeeds:
  assumes "p \<noteq> []" and "lookup w (butlast p) = Some Dir"
    and "lookup w p = None \<and> butlast p \<notin> set (readonly w) \<or>
         (\<exists>old. lookup w p = Some (File old)) \<and> p \<notin> set (readonly w)"
  shows "\<exists>w1. py_open p w = (Inr p, w1)"
  using assms
  by (auto simp: py_open_def split: option.splits entry.splits if_splits)

lemma with_open_write_ok:
  assumes "with_open_write w = (None, w')"
  shows "lookup w' (components open_arg) = Some (File xml) \<and>
         handles w' (components open_arg) = None \<and>
         (\<forall>q. q \<noteq> components open_arg \<longrightarrow> lookup w' q = lookup w q) \<and>
         (\<forall>g. g \<noteq> components open_arg \<longrightarrow> handles w' g = handles w g) \<and>
         stdout w' = stdout w"
proof -
  let ?p = "components open_arg"
  from assms obtain f w1 where op: "py_open ?p w = (Inr f, w1)"
    by (auto simp: with_open_write_def split: prod.splits sum.splits option.splits)
  note o = py_open_ok [OF op]
  from o have f: "f = ?p" by simp
  from o have wr: "py_write ?p xml w1 = (None, w1\<lparr>handles := (handles w1)(?p \<mapsto> xml)\<rparr>)"
    by (simp add: py_write_def)
  let ?w2 = "w1\<lparr>handles := (handles w1)(?p \<mapsto> xml)\<rparr>"
  from assms have cl: "py_close ?p ?w2 = (None, w')"
    by (simp add: with_open_write_def op f wr)
  have "lookup ?w2 ?p = lookup w1 ?p"
    by (simp add: lookup_def)
  with o have l2: "lookup ?w2 ?p = Some (File [])"
    by simp
  from cl l2 have w': "w' = ?w2\<lparr>entries := (?p, File xml) # entries ?w2,
                               space := space ?w2 - length xml,
                               handles := (handles ?w2)(?p := None)\<rparr>"
    by (auto simp: py_close_def split: if_splits)
  have "lookup w' q = lookup w q" if "q \<noteq> ?p" for q
  proof -
    have "lookup w' q = lookup w1 q"
      using that by (simp add: w' lookup_def)
    with o that show ?thesis by simp
  qed
  moreover have "handles w' g = handles w g" if "g \<noteq> ?p" for g
    using that o by (simp add: w')
  moreover have "lookup w' ?p = Some (File xml)"
    using o by (simp add: w' lookup_def)
  moreover have "handles w' ?p = None" "stdout w' = stdout w"
    using o by (simp_all add: w')
  ultimately show ?thesis by blast
qed

lemma with_open_write_stdout:
  "with_open_write w = (r, w') \<Longrightarrow> stdout w' = stdout w"
  by (auto simp: with_open_write_def py_open_def py_write_def py_close_def
           split: prod.splits sum.splits option.splits entry.splits if_splits)

lemma with_open_write_succeeds:
  assumes "lookup w (components makedirs_arg) = Some Dir"
    and "lookup w (components open_arg) = None \<and> components makedirs_arg \<notin> set (readonly w) \<and>
           length xml \<le> space w \<or>
         (\<exists>old. lookup w (components open_arg) = Some (File old) \<and>
                length xml \<le> space w + length old) \<and>
           components open_arg \<notin> set (readonly w)"
  shows "fst (with_open_write w) = None"
proof -
  let ?p = "components open_arg"
  have "\<exists>w1. py_open ?p w = (Inr ?p, w1)"
    using assms by (intro py_open_succeeds) (auto simp: out_path_nonempty out_path_parent)
  then obtain w1 where op: "py_open ?p w = (Inr ?p, w1)" ..
  note o = py_open_ok [OF op]
  have sp: "length xml \<le> space w1"
    using o assms(2) by auto
  let ?w2 = "w1\<lparr>handles := (handles w1)(?p \<mapsto> xml)\<rparr>"
  from o have wr: "py_write ?p xml w1 = (None, ?w2)"
    by (simp add: py_write_def)
  have "lookup ?w2 ?p = lookup w1 ?p"
    by (simp add: lookup_def)
  with o have l2: "lookup ?w2 ?p = Some (File [])"
    by simp
  have "fst (py_close ?p ?w2) = None"
    using l2 sp by (simp add: py_close_def)
  then show ?thesis
    by (simp add: with_open_write_def op wr)
qed

lemma makedirs_existing:
  assumes "lookup w name = Some Dir"
    and "name \<noteq> [] \<Longrightarrow> lookup w (butlast name) = Some Dir"
  shows "makedirs name True w = (None, w)"
proof (cases "name = []")
  case True
  then show ?thesis
    unfolding makedirs.simps [of name True w]
    by (simp add: mkdir_def lookup_root)
next
  case False
  with assms have "mkdir name w = (Some FileExistsError, w)"
    by (simp add: mkdir_def)
  with assms False show ?thesis
    unfolding makedirs.simps [of name True w]
    by simp
qed

lemma out_path_not_prefix: "\<not> prefix (components open_arg) (components makedirs_arg)"
  by (simp add: out_path_split)

lemma main_success:
  "main w = (None, w') \<longleftrightarrow>
     (\<exists>w1 w2. makedirs (components makedirs_arg) True w = (None, w1) \<and>
              with_open_write w1 = (None, w2) \<and> w' = py_print print_arg w2)"
  by (auto simp: main_def split: prod.splits option.splits)

lemma main_failure:
  "main w = (Some e, w') \<longleftrightarrow>
     makedirs (components makedirs_arg) True w = (Some e, w') \<or>
     (\<exists>w1. makedirs (components makedirs_arg) True w = (None, w1) \<and>
           with_open_write w1 = (Some e, w'))"
  by (auto simp: main_def split: prod.splits option.splits)

lemma py_print_fields:
  "lookup (py_print s w) q = lookup w q \<and> handles (py_print s w) = handles w \<and>
   readonly (py_print s w) = readonly w \<and> space (py_print s w) = space w \<and>
   entries (py_print s w) = entries w \<and> stdout (py_print s w) = stdout w @ s @ ''\<newline>''"
  by (simp add: py_print_def lookup_def)

lemma with_open_write_space:
  assumes "with_open_write w = (None, w')"
  shows "space w' + length xml \<ge> length xml \<and> readonly w' = readonly w \<and>
         (lookup w (components open_arg) = None \<or> components open_arg \<notin> set (readonly w))"
proof -
  let ?p = "components open_arg"
  from assms obtain f w1 where op: "py_open ?p w = (Inr f, w1)"
    by (auto simp: with_open_write_def split: prod.splits sum.splits option.splits)
  note o = py_open_ok [OF op]
  from o have f: "f = ?p" by simp
  from o have wr: "py_write ?p xml w1 = (None, w1\<lparr>handles := (handles w1)(?p \<mapsto> xml)\<rparr>)"
    by (simp add: py_write_def)
  let ?w2 = "w1\<lparr>handles := (handles w1)(?p \<mapsto> xml)\<rparr>"
  from assms have cl: "py_close ?p ?w2 = (None, w')"
    by (simp add: with_open_write_def op f wr)
  have "readonly w' = readonly ?w2"
    using cl by (auto simp: py_close_def split: option.splits entry.splits if_splits)
  with o show ?thesis by simp
qed

lemma main_rerun:
  assumes wf: "wf_fs w" and run: "main w = (None, w')"
  shows "\<exists>w''. main w' = (None, w'') \<and>
           lookup w'' (components open_arg) = lookup w' (components open_arg)"
proof -
  let ?d = "components makedirs_arg" and ?p = "components open_arg"
  from run obtain w1 w2 where
    md: "makedirs ?d True w = (None, w1)" and
    ww: "with_open_write w1 = (None, w2)" and
    w': "w' = py_print print_arg w2"
    unfolding main_success by blast
  have ex1: "extends ?d w w1"
    by (rule makedirs_extends [OF md])
  with wf have wf1: "wf_fs w1"
    by (simp add: extends_def)
  have d1: "lookup w1 ?d = Some Dir"
    by (rule makedirs_isdir [OF md])
  have pd1: "?d \<noteq> [] \<Longrightarrow> lookup w1 (butlast ?d) = Some Dir"
    using wf_parent_dir [OF wf1 _ d1] .
  note post = with_open_write_ok [OF ww]
  have "length ?d \<noteq> length ?p" "length (butlast ?d) \<noteq> length ?p"
    by (simp_all add: out_path_split)
  then have neq: "?d \<noteq> ?p" "butlast ?d \<noteq> ?p"
    by fastforce+
  have d': "lookup w' ?d = Some Dir"
    using post neq(1) d1 by (simp add: w' py_print_fields)
  have pd': "?d \<noteq> [] \<Longrightarrow> lookup w' (butlast ?d) = Some Dir"
    using post neq(2) pd1 by (simp add: w' py_print_fields)
  have md': "makedirs ?d True w' = (None, w')"
    using makedirs_existing [OF d' pd'] .
  have f': "lookup w' ?p = Some (File xml)"
    using post by (simp add: w' py_print_fields)
  have "lookup w1 ?p = None \<or> ?p \<notin> set (readonly w1)"
    using with_open_write_space [OF ww] by simp
  moreover have "lookup w1 ?p = None \<Longrightarrow> ?p \<notin> set (readonly w1)"
    using wf_readonly_exists [OF wf1] by blast
  ultimately have "?p \<notin> set (readonly w1)"
    by blast
  then have ro': "?p \<notin> set (readonly w')"
    using with_open_write_space [OF ww] by (simp add: w' py_print_fields)
  have "fst (with_open_write w') = None"
    by (rule with_open_write_succeeds) (use d' f' ro' in auto)
  then obtain w3 where ww': "with_open_write w' = (None, w3)"
    by (cases "with_open_write w'") simp
  have "main w' = (None, py_print print_arg w3)"
    unfolding main_success using md' ww' by blast
  moreover have "lookup (py_print print_arg w3) ?p = lookup w' ?p"
    using with_open_write_ok [OF ww'] f' by (simp add: py_print_fields)
  ultimately show ?thesis by blast
qed

lemma main_succeeds:
  assumes wf: "wf_fs w" and wt: "writable_target w"
  shows "fst (main w) = None"
proof -
  let ?d = "components makedirs_arg" and ?p = "components open_arg"
  from wt have a: "\<forall>q. prefix q ?d \<longrightarrow> lookup w q = None \<or> lookup w q = Some Dir"
    by (simp add: writable_target_def list_all_iff in_set_prefixes)
  from wt have b: "\<forall>q. prefix q ?d \<and> q \<noteq> [] \<and> lookup w q = None \<longrightarrow>
      butlast q \<notin> set (readonly w)"
    by (auto simp: writable_target_def list_all_iff in_set_prefixes)
  have "fst (makedirs ?d True w) = None"
    by (rule makedirs_succeeds [OF wf a b])
  then obtain w1 where md: "makedirs ?d True w = (None, w1)"
    by (cases "makedirs ?d True w") simp
  have ex: "extends ?d w w1"
    by (rule makedirs_extends [OF md])
  have d1: "lookup w1 ?d = Some Dir"
    by (rule makedirs_isdir [OF md])
  have p1: "lookup w1 ?p = lookup w ?p"
    using extends_lookup [OF ex, of ?p] out_path_not_prefix by auto
  have ro: "readonly w1 = readonly w" and sp: "space w1 = space w"
    using ex by (simp_all add: extends_def)
  have "fst (with_open_write w1) = None"
  proof (rule with_open_write_succeeds [OF d1])
    show "lookup w1 ?p = None \<and> ?d \<notin> set (readonly w1) \<and> length xml \<le> space w1 \<or>
          (\<exists>old. lookup w1 ?p = Some (File old) \<and> length xml \<le> space w1 + length old) \<and>
          ?p \<notin> set (readonly w1)"
      using wt unfolding p1 ro sp writable_target_def
      by (auto split: option.splits entry.splits)
  qed
  then obtain w2 where ww: "with_open_write w1 = (None, w2)"
    by (cases "with_open_write w1") simp
  show ?thesis
    by (simp add: main_def md ww)
qed

lemma main_failure_stdout:
  assumes "main w = (Some e, w')"
  shows "stdout w' = stdout w"
proof -
  let ?d = "components makedirs_arg"
  from assms consider
    (in_makedirs) "makedirs ?d True w = (Some e, w')" |
    (in_write) w1 where "makedirs ?d True w = (None, w1)" "with_open_write w1 = (Some e, w')"
    unfolding main_failure by blast
  then show ?thesis
  proof cases
    case in_makedirs
    from makedirs_extends [OF in_makedirs] show ?thesis by (simp add: extends_def)
  next
    case in_write
    from makedirs_extends [OF in_write(1)] have "stdout w1 = stdout w" by (simp add: extends_def)
    with with_open_write_stdout [OF in_write(2)] show ?thesis by simp
  qed
qed

lemma xml_nonempty: "xml \<noteq> []"
  by (simp only: xml_def concat.simps append_is_Nil_conv list.distinct simp_thms)

lemma wf_world_partial: "wf_fs world_partial"
  by (simp add: wf_fs_def world_partial_def lookup_def)

lemma wf_world_existing: "wf_fs world_existing"
  by (simp add: wf_fs_def world_existing_def lookup_def)

lemma components_makedirs_arg:
  "components makedirs_arg =
     [''Users'', ''jeelk'', ''Documents'', ''GitHub'', ''JeelKantaria'', ''db-bouncer'', ''docs'']"
  by (simp add: components_def makedirs_arg_def)

lemma components_open_arg:
  "components open_arg =
     [''Users'', ''jeelk'', ''Documents'', ''GitHub'', ''JeelKantaria'', ''db-bouncer'', ''docs'',
      ''architecture.drawio'']"
  by (simp add: out_path_split components_makedirs_arg)

lemma writable_world_partial: "writable_target world_partial"
  by (simp add: writable_target_def components_makedirs_arg components_open_arg
        world_partial_def lookup_def)

lemma writable_world_existing: "writable_target world_existing"
  by (simp add: writable_target_def components_makedirs_arg components_open_arg
        world_existing_def lookup_def)

lemma lookup_env: "lookup (w\<lparr>argv := a, environ := en\<rparr>) p = lookup w p"
  by (simp add: lookup_def)

lemma mkdir_env:
  "mkdir p (w\<lparr>argv := a, environ := en\<rparr>) =
     (fst (mkdir p w), (snd (mkdir p w))\<lparr>argv := a, environ := en\<rparr>)"
  by (simp add: mkdir_def lookup_env split: option.splits entry.splits) (simp add: lookup_def)

lemma makedirs_env:
  "makedirs name x (w\<lparr>argv := a, environ := en\<rparr>) =
     (fst (makedirs name x w), (snd (makedirs name x w))\<lparr>argv := a, environ := en\<rparr>)"
proof (induction name x w rule: makedirs.induct)
  case (1 name x w)
  let ?e = "\<lambda>v. v\<lparr>argv := a, environ := en\<rparr>"
  define c where "c \<longleftrightarrow> name \<noteq> [] \<and> lookup w (butlast name) = None"
  obtain r0 w0 where rec: "makedirs (butlast name) x w = (r0, w0)"
    by (cases "makedirs (butlast name) x w")
  have rec': "c \<Longrightarrow> makedirs (butlast name) x (?e w) = (r0, ?e w0)"
    using "1.IH" rec by (simp add: c_def)
  define r1 where "r1 = (if c then (if r0 = Some FileExistsError then None else r0) else None)"
  define w1 where "w1 = (if c then w0 else w)"
  have pre: "(if name \<noteq> [] \<and> lookup w (butlast name) = None
              then (case makedirs (butlast name) x w of
                      (Some FileExistsError, w') \<Rightarrow> (None, w')
                    | rw \<Rightarrow> rw)
              else (None, w)) = (r1, w1)"
    by (auto simp: r1_def w1_def c_def rec split: option.splits error.splits)
  have pre': "(if name \<noteq> [] \<and> lookup (?e w) (butlast name) = None
              then (case makedirs (butlast name) x (?e w) of
                      (Some FileExistsError, w') \<Rightarrow> (None, w')
                    | rw \<Rightarrow> rw)
              else (None, ?e w)) = (r1, ?e w1)"
    using rec' by (auto simp: r1_def w1_def c_def lookup_env split: option.splits error.splits)
  obtain r2 w2 where mk: "mkdir name w1 = (r2, w2)"
    by (cases "mkdir name w1")
  have mk': "mkdir name (?e w1) = (r2, ?e w2)"
    using mkdir_env [where p = name and w = w1 and a = a and en = en] mk by simp
  show ?case
    unfolding makedirs.simps [of name x w] makedirs.simps [of name x "?e w"] pre pre'
    by (simp add: mk mk' lookup_env split: option.splits)
qed

lemma with_open_write_env:
  "with_open_write (w\<lparr>argv := a, environ := en\<rparr>) =
     (fst (with_open_write w), (snd (with_open_write w))\<lparr>argv := a, environ := en\<rparr>)"
  by (simp add: with_open_write_def py_open_def py_write_def py_close_def lookup_def
        split: option.splits entry.splits)

lemma main_env:
  "main (w\<lparr>argv := a, environ := en\<rparr>) =
     (fst (main w), (snd (main w))\<lparr>argv := a, environ := en\<rparr>)"
proof -
  obtain r1 w1 where md: "makedirs (components makedirs_arg) True w = (r1, w1)"
    by (cases "makedirs (components makedirs_arg) True w")
  obtain r2 w2 where ww: "with_open_write w1 = (r2, w2)"
    by (cases "with_open_write w1")
  show ?thesis
    by (simp add: main_def makedirs_env with_open_write_env md ww py_print_def
          split: option.splits)
qed

section \<open>The properties of the program\<close>

text \<open>
  C1 (determinism): whatever the two worlds are, two runs that succeed leave the same bytes,
  the literal \<open>xml\<close>, at the output path. A run that follows a successful run on a
  well-formed file system succeeds as well and leaves the same bytes. The command line and
  the environment have no influence: replacing them changes neither the outcome of the run
  nor any other part of the world it leaves.
\<close>

theorem emitted_document_is_fixed:
  "(main w1 = (None, w1') \<and> main w2 = (None, w2') \<longrightarrow>
      lookup w1' (components open_arg) = Some (File xml) \<and>
      lookup w2' (components open_arg) = lookup w1' (components open_arg)) \<and>
   (wf_fs w1 \<and> main w1 = (None, w1') \<longrightarrow>
      (\<exists>w1''. main w1' = (None, w1'') \<and>
         lookup w1'' (components open_arg) = lookup w1' (components open_arg))) \<and>
   main (w1\<lparr>argv := a, environ := en\<rparr>) =
     (fst (main w1), (snd (main w1))\<lparr>argv := a, environ := en\<rparr>)"
proof (intro conjI impI)
  assume r: "main w1 = (None, w1') \<and> main w2 = (None, w2')"
  have fixed: "lookup w' (components open_arg) = Some (File xml)" if "main w = (None, w')" for w w'
  proof -
    from that obtain u v where "with_open_write u = (None, v)" "w' = py_print print_arg v"
      unfolding main_success by blast
    with with_open_write_ok [of u v] show ?thesis
      by (simp add: py_print_fields)
  qed
  from r have r1: "main w1 = (None, w1')" and r2: "main w2 = (None, w2')"
    by simp_all
  note f1 = fixed [OF r1] and f2 = fixed [OF r2]
  show "lookup w1' (components open_arg) = Some (File xml)"
    by (rule f1)
  show "lookup w2' (components open_arg) = lookup w1' (components open_arg)"
    by (simp add: f1 f2)
next
  assume "wf_fs w1 \<and> main w1 = (None, w1')"
  then show "\<exists>w1''. main w1' = (None, w1'') \<and>
      lookup w1'' (components open_arg) = lookup w1' (components open_arg)"
    using main_rerun by blast
next
  show "main (w1\<lparr>argv := a, environ := en\<rparr>) =
     (fst (main w1), (snd (main w1))\<lparr>argv := a, environ := en\<rparr>)"
    by (rule main_env)
qed

theorem emitted_document_is_fixed_witness:
  "fst (main world_partial) = None \<and> fst (main world_existing) = None \<and>
   argv world_partial \<noteq> argv world_existing \<and>
   environ world_partial \<noteq> environ world_existing \<and>
   lookup (snd (main world_partial)) (components open_arg) = Some (File xml) \<and>
   lookup (snd (main world_existing)) (components open_arg) =
     lookup (snd (main world_partial)) (components open_arg) \<and>
   wf_fs world_partial \<and>
   fst (main (snd (main world_partial))) = None \<and>
   lookup (snd (main (snd (main world_partial)))) (components open_arg) = Some (File xml) \<and>
   fst (main (world_partial\<lparr>argv := [''gen_drawio.py'', ''--help''],
                            environ := [(''LANG'', ''C'')]\<rparr>)) = None"
proof -
  have s1: "fst (main world_partial) = None"
    by (rule main_succeeds [OF wf_world_partial writable_world_partial])
  have s2: "fst (main world_existing) = None"
    by (rule main_succeeds [OF wf_world_existing writable_world_existing])
  from s1 have m1: "main world_partial = (None, snd (main world_partial))"
    by (cases "main world_partial") simp
  from s2 have m2: "main world_existing = (None, snd (main world_existing))"
    by (cases "main world_existing") simp
  note inst = emitted_document_is_fixed
    [where ?w1.0 = world_partial and w1' = "snd (main world_partial)"
       and ?w2.0 = world_existing and w2' = "snd (main world_existing)"
       and a = "[''gen_drawio.py'', ''--help'']" and en = "[(''LANG'', ''C'')]"]
  from inst m1 m2 have same:
    "lookup (snd (main world_partial)) (components open_arg) = Some (File xml)"
    "lookup (snd (main world_existing)) (components open_arg) =
       lookup (snd (main world_partial)) (components open_arg)"
    by blast+
  from inst m1 wf_world_partial obtain w'' where
    again: "main (snd (main world_partial)) = (None, w'')"
      "lookup w'' (components open_arg) = lookup (snd (main world_partial)) (components open_arg)"
    by blast
  have diff: "argv world_partial \<noteq> argv world_existing"
      "environ world_partial \<noteq> environ world_existing"
    by (simp_all add: world_partial_def world_existing_def)
  from inst s1 have env: "fst (main (world_partial\<lparr>argv := [''gen_drawio.py'', ''--help''],
      environ := [(''LANG'', ''C'')]\<rparr>)) = None"
    by simp
  from s1 s2 same again diff wf_world_partial env show ?thesis
    by simp
qed

text \<open>
  C2 (referential integrity): the document is readable, and every edge cell of it names a
  source and a target, both of which are identifiers of node cells of the same document.
\<close>

theorem edges_reference_declared_nodes:
  "\<exists>cs. read_document xml = Some cs \<and>
     (\<forall>e \<in> set (edges cs).
        source e \<noteq> None \<and> target e \<noteq> None \<and>
        source e \<in> set (node_ids cs) \<and> target e \<in> set (node_ids cs))"
  by (rule exI, rule conjI, rule read_document_xml) (simp add: edges_def node_ids_def nodes_def)

theorem edges_reference_declared_nodes_witness:
  "\<exists>cs. read_document xml = Some cs \<and>
     \<lparr>ident = Some ''e_pool_t1'', parent = Some ''1'', vertex = False, edge = True,
      source = Some ''pool'', target = Some ''t1''\<rparr> \<in> set (edges cs) \<and>
     Some ''pool'' \<in> set (node_ids cs) \<and> Some ''t1'' \<in> set (node_ids cs)"
proof -
  let ?e = "\<lparr>ident = Some ''e_pool_t1'', parent = Some ''1'', vertex = False, edge = True,
      source = Some ''pool'', target = Some ''t1''\<rparr>"
  from edges_reference_declared_nodes obtain cs where
    rd: "read_document xml = Some cs" and
    ri: "\<forall>e \<in> set (edges cs). source e \<noteq> None \<and> target e \<noteq> None \<and>
           source e \<in> set (node_ids cs) \<and> target e \<in> set (node_ids cs)"
    by blast
  have mem: "?e \<in> set (edges cs)"
    using rd unfolding read_document_xml by (auto simp: edges_def)
  with ri have "source ?e \<in> set (node_ids cs) \<and> target ?e \<in> set (node_ids cs)"
    by blast
  with rd mem show ?thesis by auto
qed

text \<open>
  C3 (unique identifiers): every cell of the document carries an identifier, the identifiers
  of the node cells are pairwise distinct, and so are the identifiers of all cells together
  (the two structural cells, the nodes and the edges).
\<close>

theorem cell_identifiers_distinct:
  "\<exists>cs. read_document xml = Some cs \<and>
     None \<notin> set (map ident cs) \<and>
     distinct (node_ids cs) \<and>
     distinct (map ident cs)"
  by (rule exI, rule conjI, rule read_document_xml) (simp add: node_ids_def nodes_def)

text \<open>
  C4 (owning containers): the owner of every node cell is either the canvas layer or the
  identifier of a node cell of the same document.
\<close>

theorem node_owner_is_canvas_or_node:
  "\<exists>cs. read_document xml = Some cs \<and>
     (\<forall>n \<in> set (nodes cs). parent n = Some canvas \<or> parent n \<in> set (node_ids cs))"
  by (rule exI, rule conjI, rule read_document_xml) (simp add: node_ids_def nodes_def canvas_def)

theorem node_owner_is_canvas_or_node_witness:
  "\<exists>cs. read_document xml = Some cs \<and>
     \<lparr>ident = Some ''router'', parent = Some ''bouncer'', vertex = True, edge = False,
      source = None, target = None\<rparr> \<in> set (nodes cs) \<and>
     Some ''bouncer'' \<noteq> Some canvas \<and> Some ''bouncer'' \<in> set (node_ids cs)"
proof -
  let ?n = "\<lparr>ident = Some ''router'', parent = Some ''bouncer'', vertex = True, edge = False,
      source = None, target = None\<rparr>"
  from node_owner_is_canvas_or_node obtain cs where
    rd: "read_document xml = Some cs" and
    ow: "\<forall>n \<in> set (nodes cs). parent n = Some canvas \<or> parent n \<in> set (node_ids cs)"
    by blast
  have mem: "?n \<in> set (nodes cs)"
    using rd unfolding read_document_xml by (auto simp: nodes_def)
  have nc: "parent ?n \<noteq> Some canvas"
    by (simp add: canvas_def)
  from ow mem have "parent ?n = Some canvas \<or> parent ?n \<in> set (node_ids cs)"
    by blast
  with nc have "parent ?n \<in> set (node_ids cs)"
    by blast
  with rd mem nc show ?thesis by auto
qed



text \<open>
  C6 (failures are fatal): when creating the directories fails, the run ends there with that
  error: the world is the one the failed call left, the entry at the output path is the one
  from before the run and nothing has been printed. When opening, writing or closing the file
  fails, the run ends with that error and nothing has been printed. Every failed run has exit
  status 1.
\<close>

theorem filesystem_failure_is_fatal:
  "(makedirs (components makedirs_arg) True w = (Some e, w1) \<longrightarrow>
      main w = (Some e, w1) \<and>
      lookup w1 (components open_arg) = lookup w (components open_arg) \<and>
      handles w1 = handles w \<and> stdout w1 = stdout w) \<and>
   (makedirs (components makedirs_arg) True w = (None, w1) \<and>
    with_open_write w1 = (Some e, w2) \<longrightarrow>
      main w = (Some e, w2) \<and> stdout w2 = stdout w) \<and>
   (fst (main w) \<noteq> None \<longrightarrow>
      exit_status (main w) = 1 \<and> stdout (snd (main w)) = stdout w)"
proof (intro conjI impI)
  let ?d = "components makedirs_arg" and ?p = "components open_arg"
  assume md: "makedirs ?d True w = (Some e, w1)"
  then show m: "main w = (Some e, w1)"
    by (simp add: main_def)
  from makedirs_extends [OF md] show "handles w1 = handles w"
    by (simp add: extends_def)
  from main_failure_stdout [OF m] show "stdout w1 = stdout w" .
  from extends_lookup [OF makedirs_extends [OF md], of ?p] out_path_not_prefix
  show "lookup w1 ?p = lookup w ?p"
    by auto
next
  assume "makedirs (components makedirs_arg) True w = (None, w1) \<and>
    with_open_write w1 = (Some e, w2)"
  then show m: "main w = (Some e, w2)"
    by (simp add: main_def)
  from main_failure_stdout [OF m] show "stdout w2 = stdout w" .
next
  assume f: "fst (main w) \<noteq> None"
  then show "exit_status (main w) = 1"
    by (auto simp: exit_status_def)
  from f obtain e' w' where "main w = (Some e', w')"
    by (cases "main w") auto
  with main_failure_stdout [of w e' w'] show "stdout (snd (main w)) = stdout w"
    by simp
qed

theorem filesystem_failure_is_fatal_witness:
  "makedirs (components makedirs_arg) True world_blocked =
     (Some NotADirectoryError, world_blocked) \<and>
   main world_blocked = (Some NotADirectoryError, world_blocked) \<and>
   exit_status (main world_blocked) = 1 \<and>
   makedirs (components makedirs_arg) True world_full = (None, world_full) \<and>
   fst (with_open_write world_full) = Some NoSpaceError \<and>
   fst (main world_full) = Some NoSpaceError \<and>
   exit_status (main world_full) = 1 \<and>
   stdout (snd (main world_full)) = stdout world_full"
proof -
  let ?d = "components makedirs_arg"
  have md1: "makedirs ?d True world_blocked = (Some NotADirectoryError, world_blocked)"
    unfolding components_makedirs_arg
    by (simp add: makedirs.simps mkdir_def lookup_def world_blocked_def)
  note a = filesystem_failure_is_fatal
    [of world_blocked NotADirectoryError world_blocked world_blocked]
  from a md1 have m1: "main world_blocked = (Some NotADirectoryError, world_blocked)"
    by blast
  then have "fst (main world_blocked) \<noteq> None"
    by simp
  with a have x1: "exit_status (main world_blocked) = 1"
    by blast
  have lk: "lookup world_full ?d = Some Dir" "lookup world_full (butlast ?d) = Some Dir"
    unfolding components_makedirs_arg
    by (simp_all add: lookup_def world_full_def world_existing_def)
  have md2: "makedirs ?d True world_full = (None, world_full)"
    by (rule makedirs_existing) (simp_all add: lk)
  have ww: "fst (with_open_write world_full) = Some NoSpaceError"
    using xml_nonempty
    by (simp add: with_open_write_def py_open_def py_write_def py_close_def lookup_def
          components_open_arg world_full_def world_existing_def)
  then have ww2: "with_open_write world_full = (Some NoSpaceError, snd (with_open_write world_full))"
    by (cases "with_open_write world_full") simp
  note b = filesystem_failure_is_fatal
    [of world_full NoSpaceError world_full "snd (with_open_write world_full)"]
  from b md2 ww2 have m2: "main world_full = (Some NoSpaceError, snd (with_open_write world_full))"
    by blast
  then have f2: "fst (main world_full) \<noteq> None"
    by simp
  with b have x2: "exit_status (main world_full) = 1"
    "stdout (snd (main world_full)) = stdout world_full"
    by blast+
  from md1 m1 x1 md2 ww m2 x2 show ?thesis
    by simp
qed

text \<open>
  C7 (structural fidelity): reading the document back yields 16 node cells and 18 edge cells;
  no cell is both, and together with the two structural cells they are all 36 cells.
\<close>

theorem reader_yields_16_nodes_18_edges:
  "\<exists>cs. read_document xml = Some cs \<and>
     length (nodes cs) = 16 \<and> length (edges cs) = 18 \<and>
     length cs = 36 \<and> filter (\<lambda>c. vertex c \<and> edge c) cs = []"
  by (rule exI, rule conjI, rule read_document_xml) (simp add: nodes_def edges_def)

text \<open>
  C8 (confirmation): a successful run appends to the standard output exactly one line, the
  word \<open>Created\<close> followed by the string that was passed to \<open>open\<close>, and the file at
  that path holds the document.
\<close>

theorem confirmation_names_written_path:
  "main w = (None, w') \<Longrightarrow>
     stdout w' = stdout w @ ''Created '' @ open_arg @ ''\<newline>'' \<and>
     lookup w' (components open_arg) = Some (File xml)"
proof -
  assume "main w = (None, w')"
  then obtain w1 w2 where
    md: "makedirs (components makedirs_arg) True w = (None, w1)" and
    ww: "with_open_write w1 = (None, w2)" and
    w': "w' = py_print print_arg w2"
    unfolding main_success by blast
  from makedirs_extends [OF md] have "stdout w1 = stdout w"
    by (simp add: extends_def)
  with with_open_write_ok [OF ww] show ?thesis
    by (simp add: w' py_print_fields print_arg_names_open_arg)
qed

theorem confirmation_names_written_path_witness:
  "main world_partial = (None, snd (main world_partial)) \<and>
   stdout (snd (main world_partial)) =
     ''Created /Users/jeelk/Documents/GitHub/JeelKantaria/db-bouncer/docs/architecture.drawio\<newline>'' \<and>
   lookup (snd (main world_partial))
     [''Users'', ''jeelk'', ''Documents'', ''GitHub'', ''JeelKantaria'', ''db-bouncer'', ''docs'',
      ''architecture.drawio''] = Some (File xml)"
proof -
  have "fst (main world_partial) = None"
    by (rule main_succeeds [OF wf_world_partial writable_world_partial])
  then have m: "main world_partial = (None, snd (main world_partial))"
    by (cases "main world_partial") simp
  have e: "stdout world_partial = []"
    by (simp add: world_partial_def)
  note c = confirmation_names_written_path [OF m, unfolded components_open_arg]
  with m e show ?thesis
    by (simp add: open_arg_def)
qed

text \<open>
  C9 (edges live on the canvas): the owner of every edge cell is the canvas layer, and this
  includes an edge both of whose endpoints are node cells owned by the container \<open>bouncer\<close>.
\<close>

theorem edges_owned_by_canvas:
  "\<exists>cs. read_document xml = Some cs \<and>
     (\<forall>e \<in> set (edges cs). parent e = Some canvas) \<and>
     (\<exists>e \<in> set (edges cs). \<exists>s \<in> set (nodes cs). \<exists>t \<in> set (nodes cs).
        source e = ident s \<and> target e = ident t \<and>
        parent s = Some ''bouncer'' \<and> parent t = Some ''bouncer'')"
  by (rule exI, rule conjI, rule read_document_xml) (simp add: edges_def nodes_def canvas_def)

theorem edges_owned_by_canvas_witness:
  "\<exists>cs. read_document xml = Some cs \<and>
     \<lparr>ident = Some ''e_px_rt1'', parent = Some ''1'', vertex = False, edge = True,
      source = Some ''proxy_pg'', target = Some ''router''\<rparr> \<in> set (edges cs) \<and>
     Some ''1'' = Some canvas"
proof -
  let ?e = "\<lparr>ident = Some ''e_px_rt1'', parent = Some ''1'', vertex = False, edge = True,
      source = Some ''proxy_pg'', target = Some ''router''\<rparr>"
  from edges_owned_by_canvas obtain cs where
    rd: "read_document xml = Some cs" and
    ow: "\<forall>e \<in> set (edges cs). parent e = Some canvas"
    by blast
  have mem: "?e \<in> set (edges cs)"
    using rd unfolding read_document_xml by (auto simp: edges_def)
  with ow have "parent ?e = Some canvas"
    by blast
  with rd mem show ?thesis by auto
qed

text \<open>
  C10 (confirmation after close): in every run whose standard output has grown, the
  directories were created and the file was opened, written and closed without error before
  \<open>print\<close> ran: \<open>print\<close> was applied to a world in which the file at the output path
  already holds the whole document and no handle on it is open.
\<close>

theorem confirmation_printed_after_close:
  "stdout (snd (main w)) \<noteq> stdout w \<Longrightarrow>
     \<exists>w1 w2. makedirs (components makedirs_arg) True w = (None, w1) \<and>
       with_open_write w1 = (None, w2) \<and>
       lookup w2 (components open_arg) = Some (File xml) \<and>
       handles w2 (components open_arg) = None \<and>
       stdout w2 = stdout w \<and>
       main w = (None, py_print print_arg w2)"
proof -
  assume grown: "stdout (snd (main w)) \<noteq> stdout w"
  obtain r w' where m: "main w = (r, w')"
    by (cases "main w")
  have "r = None"
  proof (cases r)
    case None
    then show ?thesis .
  next
    case (Some e)
    with m main_failure_stdout [of w e w'] grown show ?thesis
      by simp
  qed
  with m have m': "main w = (None, w')"
    by simp
  then obtain w1 w2 where
    md: "makedirs (components makedirs_arg) True w = (None, w1)" and
    ww: "with_open_write w1 = (None, w2)" and
    w': "w' = py_print print_arg w2"
    unfolding main_success by blast
  from makedirs_extends [OF md] have "stdout w1 = stdout w"
    by (simp add: extends_def)
  with with_open_write_ok [OF ww] md ww m' w' show ?thesis
    by auto
qed

theorem confirmation_printed_after_close_witness:
  "stdout (snd (main world_existing)) \<noteq> stdout world_existing \<and>
   (\<exists>w2. lookup w2 (components open_arg) = Some (File xml) \<and>
      handles w2 (components open_arg) = None \<and>
      main world_existing = (None, py_print print_arg w2))"
proof -
  have "fst (main world_existing) = None"
    by (rule main_succeeds [OF wf_world_existing writable_world_existing])
  then have m: "main world_existing = (None, snd (main world_existing))"
    by (cases "main world_existing") simp
  then obtain v where "snd (main world_existing) = py_print print_arg v"
    unfolding main_success by blast
  then have "stdout (snd (main world_existing)) \<noteq> []"
    by (simp add: py_print_fields)
  moreover have "stdout world_existing = []"
    by (simp add: world_existing_def)
  ultimately have grown: "stdout (snd (main world_existing)) \<noteq> stdout world_existing"
    by simp
  from confirmation_printed_after_close [OF grown] grown show ?thesis
    by blast
qed

end
